theory Spec2Isabelle
  imports Complex_Main
begin

section \<open>The fitness tracker of homework.py\<close>

text \<open>
  The module computes distance, mean speed and spent calories of a workout from sensor
  readings and renders them into a one-line report. This theory embeds its classes and
  functions and proves what they compute.

  Numbers. Python's \<open>int\<close> and \<open>float\<close> values are both read as real numbers, with
  \<open>/\<close> the true division of Python 3. The rounding of IEEE doubles, their infinities
  and the OverflowError of \<open>**\<close> are not part of the model: every formula is computed
  exactly. A division by zero raises, as it does in Python for both number types.

  Strings. A Python \<open>str\<close> is a sequence of Unicode code points, modelled as a list of
  natural numbers. The report's literal text is Cyrillic, so it is given by its code
  points; ASCII text is written with \<open>asc\<close>.
\<close>

subsection \<open>Exceptions\<close>

type_synonym ustr = "nat list"

definition asc :: "string \<Rightarrow> ustr" where
  "asc s = map of_char s"

datatype error =
    ValueError ustr
  | KeyError ustr
  | TypeError
  | ZeroDivisionError
  | NotImplementedError ustr

text \<open>Sequencing of two computations that may raise: the first exception wins.\<close>

definition bind_err :: "error + 'a \<Rightarrow> ('a \<Rightarrow> error + 'b) \<Rightarrow> error + 'b" where
  "bind_err m f = (case m of Inl e \<Rightarrow> Inl e | Inr v \<Rightarrow> f v)"

text \<open>Python's \<open>x / y\<close> on numbers.\<close>

definition py_div :: "real \<Rightarrow> real \<Rightarrow> error + real" where
  "py_div x y = (if y = 0 then Inl ZeroDivisionError else Inr (x / y))"

subsection \<open>The classes and their instances\<close>

text \<open>
  The four classes of the module: \<open>Training\<close> and its subclasses \<open>Running\<close>,
  \<open>SportsWalking\<close> and \<open>Swimming\<close>. An instance carries its class as its constructor
  and the attributes that the class's \<open>__init__\<close> sets.
\<close>

datatype cls = Training_cls | Running_cls | SportsWalking_cls | Swimming_cls

datatype training =
    Training (action: real) (duration: real) (weight: real)
  | Running (action: real) (duration: real) (weight: real)
  | SportsWalking (action: real) (duration: real) (weight: real) (height: real)
  | Swimming (action: real) (duration: real) (weight: real)
      (length_pool: real) (count_pool: real)

fun class_of :: "training \<Rightarrow> cls" where
  "class_of (Training _ _ _) = Training_cls"
| "class_of (Running _ _ _) = Running_cls"
| "class_of (SportsWalking _ _ _ _) = SportsWalking_cls"
| "class_of (Swimming _ _ _ _ _) = Swimming_cls"


text \<open>
  Class attributes, looked up along the inheritance chain: \<open>Swimming\<close> overrides
  \<open>LEN_STEP\<close>, every other class inherits the value of \<open>Training\<close>.
\<close>

fun LEN_STEP :: "cls \<Rightarrow> real" where
  "LEN_STEP Swimming_cls = 1.38"
| "LEN_STEP _ = 0.65"

definition M_IN_KM :: real where
  "M_IN_KM = 1000"

definition M_IN_H :: real where
  "M_IN_H = 60"

definition CALORIES_MEAN_SPEED_MULTIPLIER :: real where
  "CALORIES_MEAN_SPEED_MULTIPLIER = 18"

definition CALORIES_MEAN_SPEED_SHIFT :: real where
  "CALORIES_MEAN_SPEED_SHIFT = 1.79"

definition CALORIES_VELOCITY_MULTIPLIER :: real where
  "CALORIES_VELOCITY_MULTIPLIER = 0.035"

definition CALORIES_WEIGHT_MULTIPLIER :: real where
  "CALORIES_WEIGHT_MULTIPLIER = 0.029"

definition M_PER_SEC :: real where
  "M_PER_SEC = 0.278"

definition HGT_IN_M :: real where
  "HGT_IN_M = 100"

definition MEAN_SPEED_SHIFT :: real where
  "MEAN_SPEED_SHIFT = 1.1"

definition MEAN_SPEED_MULTIPLIER :: real where
  "MEAN_SPEED_MULTIPLIER = 2"

subsection \<open>The methods\<close>

text \<open>
  Each method body is a definition named after its class; \<open>get_distance\<close>,
  \<open>get_mean_speed\<close> and \<open>get_spent_calories\<close> are the calls \<open>self.get_...()\<close>, which
  select the body by the class of \<open>self\<close>.
\<close>

definition Training_get_distance :: "training \<Rightarrow> error + real" where
  "Training_get_distance self =
     py_div (action self * LEN_STEP (class_of self)) M_IN_KM"

definition Swimming_get_distance :: "training \<Rightarrow> error + real" where
  "Swimming_get_distance self =
     bind_err (py_div (action self * LEN_STEP (class_of self)) M_IN_KM)
       (\<lambda>q. py_div q (duration self))"

fun get_distance :: "training \<Rightarrow> error + real" where
  "get_distance (Swimming a d w lp cp) = Swimming_get_distance (Swimming a d w lp cp)"
| "get_distance self = Training_get_distance self"

definition Training_get_mean_speed :: "training \<Rightarrow> error + real" where
  "Training_get_mean_speed self =
     bind_err (get_distance self) (\<lambda>dst. py_div dst (duration self))"

definition Swimming_get_mean_speed :: "training \<Rightarrow> error + real" where
  "Swimming_get_mean_speed self =
     bind_err (py_div (length_pool self * count_pool self) M_IN_KM)
       (\<lambda>q. py_div q (duration self))"

fun get_mean_speed :: "training \<Rightarrow> error + real" where
  "get_mean_speed (Swimming a d w lp cp) = Swimming_get_mean_speed (Swimming a d w lp cp)"
| "get_mean_speed self = Training_get_mean_speed self"

definition Training_get_spent_calories :: "training \<Rightarrow> error + real" where
  "Training_get_spent_calories self = Inl (NotImplementedError (asc ''Individual_formula''))"

definition Running_get_spent_calories :: "training \<Rightarrow> error + real" where
  "Running_get_spent_calories self =
     bind_err (get_mean_speed self) (\<lambda>speed.
     bind_err (py_div ((CALORIES_MEAN_SPEED_MULTIPLIER * speed + CALORIES_MEAN_SPEED_SHIFT)
                        * weight self) M_IN_KM) (\<lambda>q.
     Inr (q * duration self * 60)))"

definition SportsWalking_get_spent_calories :: "training \<Rightarrow> error + real" where
  "SportsWalking_get_spent_calories self =
     bind_err (get_mean_speed self) (\<lambda>ms.
     let speed = ms * M_PER_SEC in
     bind_err (py_div (height self) HGT_IN_M) (\<lambda>hm.
     bind_err (py_div (speed ^ 2) hm) (\<lambda>q.
     Inr ((CALORIES_VELOCITY_MULTIPLIER * weight self
            + q * CALORIES_WEIGHT_MULTIPLIER * weight self)
          * (duration self * M_IN_H)))))"

definition Swimming_get_spent_calories :: "training \<Rightarrow> error + real" where
  "Swimming_get_spent_calories self =
     bind_err (get_mean_speed self) (\<lambda>ms.
     Inr ((ms + MEAN_SPEED_SHIFT) * MEAN_SPEED_MULTIPLIER * weight self * duration self))"

fun get_spent_calories :: "training \<Rightarrow> error + real" where
  "get_spent_calories (Training a d w) = Training_get_spent_calories (Training a d w)"
| "get_spent_calories (Running a d w) = Running_get_spent_calories (Running a d w)"
| "get_spent_calories (SportsWalking a d w h) =
     SportsWalking_get_spent_calories (SportsWalking a d w h)"
| "get_spent_calories (Swimming a d w lp cp) =
     Swimming_get_spent_calories (Swimming a d w lp cp)"

subsection \<open>The report\<close>



text \<open>
  The conversion \<open>{x:.3f}\<close> of a number: an optional minus sign, the digits of the
  integer part, a point and three digits, the value rounded to the nearest multiple of
  \<open>0.001\<close> and a tie to the even one. A negative value that rounds to zero keeps its sign.
\<close>

definition digit :: "nat \<Rightarrow> nat" where
  "digit k = 48 + k"

fun digits :: "nat \<Rightarrow> ustr" where
  "digits n = (if n < 10 then [digit n] else digits (n div 10) @ [digit (n mod 10)])"

declare digits.simps [simp del]

definition round_half_even :: "real \<Rightarrow> int" where
  "round_half_even x =
     (let f = \<lfloor>x\<rfloor>; r = x - of_int f
      in if r < 1 / 2 then f
         else if 1 / 2 < r then f + 1
         else if even f then f else f + 1)"

definition format_3f :: "real \<Rightarrow> ustr" where
  "format_3f x =
     (let n = nat (round_half_even (\<bar>x\<bar> * 1000))
      in (if x < 0 then asc ''-'' else [])
         @ digits (n div 1000) @ asc ''.''
         @ [digit (n div 100 mod 10), digit (n div 10 mod 10), digit (n mod 10)])"












subsection \<open>The factory\<close>

text \<open>
  The keys that \<open>read_package\<close> looks up in its dictionary: a string (the type code) and
  the class object \<open>ValueError\<close>, which the guard tests for membership.
\<close>

datatype key = Str ustr | ValueError_cls

definition training_types :: "key \<rightharpoonup> cls" where
  "training_types =
     map_of [(Str (asc ''RUN''), Running_cls),
             (Str (asc ''WLK''), SportsWalking_cls),
             (Str (asc ''SWM''), Swimming_cls)]"

text \<open>
  \<open>training_class(*data)\<close>: the call binds the elements of \<open>data\<close> to the parameters of
  \<open>__init__\<close> and raises TypeError when their number is not the class's arity.
\<close>

fun construct :: "cls \<Rightarrow> real list \<Rightarrow> error + training" where
  "construct Training_cls [a, d, w] = Inr (Training a d w)"
| "construct Running_cls [a, d, w] = Inr (Running a d w)"
| "construct SportsWalking_cls [a, d, w, h] = Inr (SportsWalking a d w h)"
| "construct Swimming_cls [a, d, w, lp, cp] = Inr (Swimming a d w lp cp)"
| "construct _ _ = Inl TypeError"

definition read_package :: "ustr \<Rightarrow> real list \<Rightarrow> error + training" where
  "read_package training_type data =
     (if training_types ValueError_cls \<noteq> None
      then Inl (ValueError (asc ''Unknown workout type: '' @ training_type))
      else case training_types (Str training_type) of
             None \<Rightarrow> Inl (KeyError training_type)
           | Some training_class \<Rightarrow> construct training_class data)"

section \<open>Properties\<close>

lemmas consts_defs =
  M_IN_KM_def M_IN_H_def CALORIES_MEAN_SPEED_MULTIPLIER_def CALORIES_MEAN_SPEED_SHIFT_def
  CALORIES_VELOCITY_MULTIPLIER_def CALORIES_WEIGHT_MULTIPLIER_def M_PER_SEC_def HGT_IN_M_def
  MEAN_SPEED_SHIFT_def MEAN_SPEED_MULTIPLIER_def

lemmas method_defs =
  Training_get_distance_def Swimming_get_distance_def Training_get_mean_speed_def
  Swimming_get_mean_speed_def Training_get_spent_calories_def Running_get_spent_calories_def
  SportsWalking_get_spent_calories_def Swimming_get_spent_calories_def
  bind_err_def py_div_def

lemmas format_defs =
  format_3f_def round_half_even_def digits.simps digit_def asc_def Let_def

subsection \<open>The formulas\<close>

text \<open>
  C3. With a positive duration, \<open>get_distance\<close> of a Running or SportsWalking record is
  \<open>action * 0.65 / 1000\<close>, and that of a Swimming record is
  \<open>action * 1.38 / 1000 / duration\<close>, the division by the duration included.
\<close>

theorem get_distance_formula:
  assumes "0 < d"
  shows "get_distance (Running a d w) = Inr (a * 0.65 / 1000)
     \<and> get_distance (SportsWalking a d w h) = Inr (a * 0.65 / 1000)
     \<and> get_distance (Swimming a d w lp cp) = Inr (a * 1.38 / 1000 / d)"
  using assms by (simp add: method_defs consts_defs)

theorem get_distance_formula_witness:
  "(0::real) < 2
     \<and> get_distance (Running 15000 2 75) = Inr 9.75
     \<and> get_distance (SportsWalking 9000 2 75 180) = Inr 5.85
     \<and> get_distance (Swimming 720 2 80 25 40) = Inr 0.4968"
proof -
  have h: "(0::real) < 2" by simp
  show ?thesis
    using h get_distance_formula [OF h, of 15000 75] get_distance_formula [OF h, of 9000 75 180]
      get_distance_formula [OF h, of 720 80 _ 25 40]
    by simp
qed

text \<open>
  C4. With a positive duration, \<open>get_mean_speed\<close> of a Running or SportsWalking record is
  the value of \<open>get_distance\<close> divided by the duration; that of a Swimming record is
  \<open>length_pool * count_pool / 1000 / duration\<close>, which mentions neither the action count
  nor the stroke length, so it is the same for every action count.
\<close>

theorem get_mean_speed_formula:
  assumes "0 < d"
  shows "(\<exists>dst. get_distance (Running a d w) = Inr dst
            \<and> get_mean_speed (Running a d w) = Inr (dst / d))
     \<and> (\<exists>dst. get_distance (SportsWalking a d w h) = Inr dst
            \<and> get_mean_speed (SportsWalking a d w h) = Inr (dst / d))
     \<and> get_mean_speed (Swimming a d w lp cp) = Inr (lp * cp / 1000 / d)
     \<and> get_mean_speed (Swimming a' d w lp cp) = get_mean_speed (Swimming a d w lp cp)"
proof -
  from assms have nz: "d \<noteq> 0" by simp
  have run: "get_mean_speed (Running a d w) = Inr (a * LEN_STEP Running_cls / M_IN_KM / d)"
    and rund: "get_distance (Running a d w) = Inr (a * LEN_STEP Running_cls / M_IN_KM)"
    using nz
    by (simp_all add: Training_get_mean_speed_def Training_get_distance_def bind_err_def
        py_div_def M_IN_KM_def)
  have wlk: "get_mean_speed (SportsWalking a d w h)
      = Inr (a * LEN_STEP SportsWalking_cls / M_IN_KM / d)"
    and wlkd: "get_distance (SportsWalking a d w h)
      = Inr (a * LEN_STEP SportsWalking_cls / M_IN_KM)"
    using nz
    by (simp_all add: Training_get_mean_speed_def Training_get_distance_def bind_err_def
        py_div_def M_IN_KM_def)
  have swm: "get_mean_speed (Swimming x d w lp cp) = Inr (lp * cp / 1000 / d)" for x
    using nz by (simp add: Swimming_get_mean_speed_def bind_err_def py_div_def M_IN_KM_def)
  have A: "\<exists>dst. get_distance (Running a d w) = Inr dst
      \<and> get_mean_speed (Running a d w) = Inr (dst / d)"
    using rund run by (intro exI conjI)
  have B: "\<exists>dst. get_distance (SportsWalking a d w h) = Inr dst
      \<and> get_mean_speed (SportsWalking a d w h) = Inr (dst / d)"
    using wlkd wlk by (intro exI conjI)
  have C: "get_mean_speed (Swimming a' d w lp cp) = get_mean_speed (Swimming a d w lp cp)"
    by (simp only: swm)
  from A B swm C show ?thesis
    by (intro conjI)
qed

theorem get_mean_speed_formula_witness:
  "(0::real) < 2
     \<and> get_mean_speed (Running 9000 2 75) = Inr 2.925
     \<and> get_mean_speed (SportsWalking 9000 2 75 180) = Inr 2.925
     \<and> get_mean_speed (Swimming 9000 2 75 25 40) = Inr 0.5
     \<and> get_mean_speed (Swimming 0 2 75 25 40) = Inr 0.5"
proof -
  have h: "(0::real) < 2" by simp
  have d: "get_distance (Running 9000 2 75) = Inr 5.85"
    "get_distance (SportsWalking 9000 2 75 180) = Inr 5.85"
    by (simp_all add: method_defs consts_defs)
  note formula = get_mean_speed_formula [OF h, of 9000 75 180 25 40 0]
  from formula obtain x where x: "get_distance (Running 9000 2 75) = Inr x"
    "get_mean_speed (Running 9000 2 75) = Inr (x / 2)"
    by blast
  from formula obtain y where y: "get_distance (SportsWalking 9000 2 75 180) = Inr y"
    "get_mean_speed (SportsWalking 9000 2 75 180) = Inr (y / 2)"
    by blast
  from formula have s: "get_mean_speed (Swimming 9000 2 75 25 40) = Inr (25 * 40 / 1000 / 2)"
    and s': "get_mean_speed (Swimming 0 2 75 25 40) = get_mean_speed (Swimming 9000 2 75 25 40)"
    by blast+
  from x(1) have "x = 5.85" unfolding d(1) by simp
  with x(2) have r: "get_mean_speed (Running 9000 2 75) = Inr 2.925" by simp
  from y(1) have "y = 5.85" unfolding d(2) by simp
  with y(2) have w: "get_mean_speed (SportsWalking 9000 2 75 180) = Inr 2.925" by simp
  from s have s1: "get_mean_speed (Swimming 9000 2 75 25 40) = Inr 0.5" by simp
  with s' have s2: "get_mean_speed (Swimming 0 2 75 25 40) = Inr 0.5" by simp
  from h r w s1 s2 show ?thesis by (intro conjI)
qed

text \<open>
  C6. With a positive duration and a positive height, \<open>get_spent_calories\<close> of a
  SportsWalking record is
  \<open>(0.035 * weight + (speed_ms^2 / (height / 100)) * 0.029 * weight) * (duration * 60)\<close>,
  where \<open>speed_ms\<close> is the mean speed times \<open>0.278\<close>.
\<close>

theorem walking_calories_formula:
  assumes "0 < d" and "0 < h"
  shows "\<exists>ms. get_mean_speed (SportsWalking a d w h) = Inr ms
     \<and> get_spent_calories (SportsWalking a d w h) =
         Inr ((0.035 * w + ((ms * 0.278)^2 / (h / 100)) * 0.029 * w) * (d * 60))"
proof -
  from assms have nz: "d \<noteq> 0" "h \<noteq> 0" by simp_all
  obtain ms where ms: "get_mean_speed (SportsWalking a d w h) = Inr ms"
    using nz
    by (simp add: Training_get_mean_speed_def Training_get_distance_def bind_err_def
        py_div_def M_IN_KM_def)
  then have "get_spent_calories (SportsWalking a d w h) =
       Inr ((0.035 * w + ((ms * 0.278)^2 / (h / 100)) * 0.029 * w) * (d * 60))"
    using nz
    by (simp add: SportsWalking_get_spent_calories_def bind_err_def py_div_def consts_defs)
  with ms show ?thesis by blast
qed

theorem walking_calories_formula_witness:
  "(0::real) < 1 \<and> (0::real) < 180
     \<and> get_mean_speed (SportsWalking 9000 1 75 180) = Inr 5.85
     \<and> get_spent_calories (SportsWalking 9000 1 75 180) =
         Inr ((0.035 * 75 + ((5.85 * 0.278)^2 / (180 / 100)) * 0.029 * 75) * (1 * 60))"
proof -
  have h: "(0::real) < 1" "(0::real) < 180" by simp_all
  have ms: "get_mean_speed (SportsWalking 9000 1 75 180) = Inr 5.85"
    by (simp add: method_defs consts_defs)
  from walking_calories_formula [OF h, of 9000 75]
  have "get_spent_calories (SportsWalking 9000 1 75 180) =
         Inr ((0.035 * 75 + ((5.85 * 0.278)^2 / (180 / 100)) * 0.029 * 75) * (1 * 60))"
    unfolding ms by blast
  with h ms show ?thesis by blast
qed

text \<open>
  C7. With a positive duration, \<open>get_spent_calories\<close> of a Swimming record is
  \<open>(mean_speed + 1.1) * 2 * weight * duration\<close>. For the package
  \<open>("SWM", [720, 1, 80, 25, 40])\<close> the mean speed is \<open>1.0\<close>, the distance \<open>0.9936\<close>
  and the calories \<open>336\<close>, printed as \<open>336.000\<close>.
\<close>

theorem swimming_calories_formula:
  assumes "0 < d"
  shows "(\<exists>ms. get_mean_speed (Swimming a d w lp cp) = Inr ms
            \<and> get_spent_calories (Swimming a d w lp cp) = Inr ((ms + 1.1) * 2 * w * d))
     \<and> read_package (asc ''SWM'') [720, 1, 80, 25, 40] = Inr (Swimming 720 1 80 25 40)
     \<and> get_mean_speed (Swimming 720 1 80 25 40) = Inr 1.0
     \<and> get_distance (Swimming 720 1 80 25 40) = Inr 0.9936
     \<and> get_spent_calories (Swimming 720 1 80 25 40) = Inr 336
     \<and> format_3f 336 = asc ''336.000''"
proof -
  from assms have nz: "d \<noteq> 0" by simp
  obtain ms where ms: "get_mean_speed (Swimming a d w lp cp) = Inr ms"
    using nz by (simp add: Swimming_get_mean_speed_def bind_err_def py_div_def M_IN_KM_def)
  then have "get_spent_calories (Swimming a d w lp cp) = Inr ((ms + 1.1) * 2 * w * d)"
    by (simp add: Swimming_get_spent_calories_def bind_err_def consts_defs)
  with ms have general: "\<exists>ms. get_mean_speed (Swimming a d w lp cp) = Inr ms
      \<and> get_spent_calories (Swimming a d w lp cp) = Inr ((ms + 1.1) * 2 * w * d)"
    by blast
  have pkg: "read_package (asc ''SWM'') [720, 1, 80, 25, 40] = Inr (Swimming 720 1 80 25 40)"
    by (simp add: read_package_def training_types_def asc_def)
  have speed: "get_mean_speed (Swimming 720 1 80 25 40) = Inr 1.0"
    by (simp add: method_defs consts_defs)
  have dst: "get_distance (Swimming 720 1 80 25 40) = Inr 0.9936"
    by (simp add: method_defs consts_defs)
  have cal: "get_spent_calories (Swimming 720 1 80 25 40) = Inr 336"
    by (simp add: method_defs consts_defs)
  have shown: "format_3f 336 = asc ''336.000''"
    by (simp add: format_defs)
  from general pkg speed dst cal shown show ?thesis
    by (intro conjI)
qed

theorem swimming_calories_formula_witness:
  "(0::real) < 2
     \<and> get_mean_speed (Swimming 720 2 80 25 40) = Inr 0.5
     \<and> get_spent_calories (Swimming 720 2 80 25 40) = Inr ((0.5 + 1.1) * 2 * 80 * 2)"
proof -
  have h: "(0::real) < 2" by simp
  have ms: "get_mean_speed (Swimming 720 2 80 25 40) = Inr 0.5"
    by (simp add: method_defs consts_defs)
  from swimming_calories_formula [OF h, of 720 80 25 40]
  have "get_spent_calories (Swimming 720 2 80 25 40) = Inr ((0.5 + 1.1) * 2 * 80 * 2)"
    unfolding ms by blast
  with h ms show ?thesis by blast
qed



text \<open>
  C9. \<open>get_spent_calories\<close> on an instance of the base class \<open>Training\<close> raises
  NotImplementedError and returns no value, whatever the action, duration and weight.
\<close>

theorem base_get_spent_calories_raises:
  "get_spent_calories (Training a d w) = Inl (NotImplementedError (asc ''Individual_formula''))"
  by (simp add: Training_get_spent_calories_def)

text \<open>
  C5. With a positive duration, \<open>get_spent_calories\<close> of a Running record is
  \<open>(18 * mean_speed + 1.79) * weight / 1000 * duration * 60\<close>. For the package
  \<open>("RUN", [15000, 1, 75])\<close> the distance is \<open>9.75\<close>, the mean speed \<open>9.75\<close> and the
  calories \<open>(18 * 9.75 + 1.79) * 75 / 1000 * 1 * 60\<close>, which is \<open>797.805\<close>.
\<close>

theorem running_calories_formula:
  assumes "0 < d"
  shows "(\<exists>ms. get_mean_speed (Running a d w) = Inr ms
            \<and> get_spent_calories (Running a d w) = Inr ((18 * ms + 1.79) * w / 1000 * d * 60))
     \<and> read_package (asc ''RUN'') [15000, 1, 75] = Inr (Running 15000 1 75)
     \<and> get_distance (Running 15000 1 75) = Inr 9.75
     \<and> get_mean_speed (Running 15000 1 75) = Inr 9.75
     \<and> get_spent_calories (Running 15000 1 75) = Inr ((18 * 9.75 + 1.79) * 75 / 1000 * 1 * 60)
     \<and> get_spent_calories (Running 15000 1 75) = Inr 797.805
     \<and> format_3f 797.805 = asc ''797.805''"
proof -
  from assms have nz: "d \<noteq> 0" by simp
  obtain ms where ms: "get_mean_speed (Running a d w) = Inr ms"
    using nz
    by (simp add: Training_get_mean_speed_def Training_get_distance_def bind_err_def
        py_div_def M_IN_KM_def)
  then have "get_spent_calories (Running a d w) = Inr ((18 * ms + 1.79) * w / 1000 * d * 60)"
    by (simp add: Running_get_spent_calories_def bind_err_def py_div_def consts_defs)
  with ms have general: "\<exists>ms. get_mean_speed (Running a d w) = Inr ms
      \<and> get_spent_calories (Running a d w) = Inr ((18 * ms + 1.79) * w / 1000 * d * 60)"
    by blast
  have pkg: "read_package (asc ''RUN'') [15000, 1, 75] = Inr (Running 15000 1 75)"
    by (simp add: read_package_def training_types_def asc_def)
  have dst: "get_distance (Running 15000 1 75) = Inr 9.75"
    by (simp add: method_defs consts_defs)
  have speed: "get_mean_speed (Running 15000 1 75) = Inr 9.75"
    by (simp add: method_defs consts_defs)
  have cal: "get_spent_calories (Running 15000 1 75)
      = Inr ((18 * 9.75 + 1.79) * 75 / 1000 * 1 * 60)"
    by (simp add: method_defs consts_defs)
  have cal': "get_spent_calories (Running 15000 1 75) = Inr 797.805"
    by (simp add: method_defs consts_defs)
  have shown: "format_3f 797.805 = asc ''797.805''"
    by (simp add: format_defs)
  from general pkg dst speed cal cal' shown show ?thesis
    by (intro conjI)
qed

theorem running_calories_formula_witness:
  "(0::real) < 2
     \<and> get_mean_speed (Running 16000 2 80) = Inr 5.2
     \<and> get_spent_calories (Running 16000 2 80) = Inr ((18 * 5.2 + 1.79) * 80 / 1000 * 2 * 60)"
proof -
  have h: "(0::real) < 2" by simp
  have ms: "get_mean_speed (Running 16000 2 80) = Inr 5.2"
    by (simp add: method_defs consts_defs)
  from running_calories_formula [OF h, of 16000 80]
  have "get_spent_calories (Running 16000 2 80) = Inr ((18 * 5.2 + 1.79) * 80 / 1000 * 2 * 60)"
    unfolding ms by blast
  with h ms show ?thesis by blast
qed

text \<open>
  C5 as the specification states it gives the calories of \<open>("RUN", [15000, 1, 75])\<close> as
  about \<open>797.06\<close>. The value is \<open>797.805\<close>, which is not \<open>797.06\<close> to two decimals.
\<close>

theorem running_example_calories_counterexample:
  "get_spent_calories (Running 15000 1 75) = Inr 797.805
     \<and> \<not> \<bar>797.805 - 797.06\<bar> \<le> (0.005 :: real)
     \<and> format_3f 797.805 \<noteq> format_3f 797.06"
  by (simp add: method_defs consts_defs format_defs)

subsection \<open>What the report prints\<close>













subsection \<open>What the factory raises\<close>

lemma construct_error: "construct c data = Inl e \<Longrightarrow> e = TypeError"
  by (induction c data rule: construct.induct) simp_all

lemma training_types_guard: "training_types ValueError_cls = None"
  by (simp add: training_types_def)

text \<open>
  C10. The guard of \<open>read_package\<close>, \<open>ValueError in training_types\<close>, is false: the
  class \<open>ValueError\<close> is no key of the dictionary. So no call raises ValueError, and for
  a type code other than \<open>"RUN"\<close>, \<open>"WLK"\<close> and \<open>"SWM"\<close> the lookup
  \<open>training_types[training_type]\<close> raises KeyError.
\<close>

theorem read_package_guard_never_fires:
  "training_types ValueError_cls = None
     \<and> (\<forall>msg. read_package training_type data \<noteq> Inl (ValueError msg))
     \<and> (training_type \<notin> {asc ''RUN'', asc ''WLK'', asc ''SWM''} \<longrightarrow>
          read_package training_type data = Inl (KeyError training_type))"
proof (intro conjI allI impI)
  show "training_types ValueError_cls = None"
    by (rule training_types_guard)
next
  fix msg
  show "read_package training_type data \<noteq> Inl (ValueError msg)"
  proof (cases "training_types (Str training_type)")
    case None
    then show ?thesis
      by (simp add: read_package_def training_types_guard)
  next
    case (Some c)
    then show ?thesis
      using construct_error [of c data "ValueError msg"]
      by (auto simp: read_package_def training_types_guard)
  qed
next
  assume "training_type \<notin> {asc ''RUN'', asc ''WLK'', asc ''SWM''}"
  then have "training_types (Str training_type) = None"
    by (simp add: training_types_def)
  then show "read_package training_type data = Inl (KeyError training_type)"
    by (simp add: read_package_def training_types_guard)
qed

theorem read_package_guard_never_fires_witness:
  "asc ''run'' \<notin> {asc ''RUN'', asc ''WLK'', asc ''SWM''}
     \<and> read_package (asc ''run'') [15000, 1, 75] = Inl (KeyError (asc ''run''))"
proof -
  have h: "asc ''run'' \<notin> {asc ''RUN'', asc ''WLK'', asc ''SWM''}"
    by (simp add: asc_def)
  with read_package_guard_never_fires [of "asc ''run''" "[15000, 1, 75]"] show ?thesis
    by blast
qed

text \<open>
  C1. For the unknown code \<open>"XYZ"\<close>, \<open>read_package\<close> raises \<open>KeyError("XYZ")\<close> from the
  dictionary lookup, not the ValueError with the text "Unknown workout type: XYZ" that
  its guard was written to raise.
\<close>

theorem read_package_unknown_code_raises_KeyError:
  "read_package (asc ''XYZ'') [15000, 1, 75] = Inl (KeyError (asc ''XYZ''))
     \<and> read_package (asc ''XYZ'') [15000, 1, 75]
          \<noteq> Inl (ValueError (asc ''Unknown workout type: XYZ''))"
  by (simp add: read_package_def training_types_def asc_def)

end
